theory Spec2Isabelle
  imports Main "HOL-Library.Word" "HOL-Library.Signed_Division"
begin

unbundle bit_operations_syntax

section \<open>Data model of \<^verbatim>\<open>correlationvector/spin.go\<close>\<close>

text \<open>
  Go's \<^verbatim>\<open>int\<close> and \<^verbatim>\<open>uint\<close> are taken at their width on 64-bit targets: both are
  \<open>64 word\<close>, read with \<open>sint\<close> where the source treats the value as signed and with
  \<open>unat\<close> where it treats it as unsigned. The three parameter types
  \<^verbatim>\<open>SpinCounterInterval\<close>, \<^verbatim>\<open>SpinCounterPeriodicity\<close> and \<^verbatim>\<open>SpinEntropy\<close> are declared as
  \<^verbatim>\<open>int\<close> in the source, so a caller can store any 64-bit value in them, not only the
  named constants.
\<close>

type_synonym go_int = "64 word"
type_synonym go_uint = "64 word"
type_synonym uint64 = "64 word"
type_synonym int64 = "64 word"
type_synonym byte = "8 word"

abbreviation (input) CoarseInterval :: go_int where "CoarseInterval \<equiv> 0"
abbreviation (input) FineInterval :: go_int where "FineInterval \<equiv> 1"

abbreviation (input) NoPeriodicity :: go_int where "NoPeriodicity \<equiv> 0"
abbreviation (input) ShortPeriodicity :: go_int where "ShortPeriodicity \<equiv> 1"
abbreviation (input) MediumPeriodicity :: go_int where "MediumPeriodicity \<equiv> 2"
abbreviation (input) LongPeriodicity :: go_int where "LongPeriodicity \<equiv> 3"

abbreviation (input) NoEntropy :: go_int where "NoEntropy \<equiv> 0"
abbreviation (input) OneEntropy :: go_int where "OneEntropy \<equiv> 1"
abbreviation (input) TwoEntropy :: go_int where "TwoEntropy \<equiv> 2"
abbreviation (input) ThreeEntropy :: go_int where "ThreeEntropy \<equiv> 3"
abbreviation (input) FourEntropy :: go_int where "FourEntropy \<equiv> 4"

record SpinParameters =
  Interval :: go_int
  Periodicity :: go_int
  Entropy :: go_int

definition defaultParameters :: SpinParameters where
  "defaultParameters =
     \<lparr>Interval = CoarseInterval, Periodicity = ShortPeriodicity, Entropy = TwoEntropy\<rparr>"

text \<open>
  Modelled from the spec: the \<^verbatim>\<open>CorrelationVector\<close> object and its constructor
  \<^verbatim>\<open>newCorrelationVector(string, counter, version)\<close> are declared outside of
  \<^verbatim>\<open>spin.go\<close>. The object is taken as the triple the constructor receives: the full
  string, the counter and the version.
\<close>

record 'v CorrelationVector =
  cv_string :: string
  cv_counter :: int
  cv_version :: 'v

definition newCorrelationVector :: "string \<Rightarrow> int \<Rightarrow> 'v \<Rightarrow> 'v CorrelationVector" where
  "newCorrelationVector s counter version =
     \<lparr>cv_string = s, cv_counter = counter, cv_version = version\<rparr>"

subsection \<open>The ambient inputs: validation flag, random source, clock\<close>

text \<open>
  The package-level flag \<^verbatim>\<open>ValidateCorrelationVectorDuringCreation\<close>, the global source
  behind \<^verbatim>\<open>rand.Read\<close> and the clock behind \<^verbatim>\<open>time.Now()\<close> are state outside of the
  function. The random source is the sequence of bytes it will hand out and the number of
  bytes already drawn; the clock is the sequence of its successive readings (as
  \<^verbatim>\<open>UnixNano()\<close> values) and the number of readings already taken.
\<close>

record world =
  ValidateCorrelationVectorDuringCreation :: bool
  rand_source :: "nat \<Rightarrow> byte"
  rand_drawn :: nat
  clock :: "nat \<Rightarrow> int64"
  clock_reads :: nat

text \<open>\<^verbatim>\<open>entropy := make([]byte, n); rand.Read(entropy)\<close> for a length \<open>n\<close>.\<close>

definition rand_Read :: "nat \<Rightarrow> world \<Rightarrow> byte list \<times> world" where
  "rand_Read n w =
     (map (rand_source w) [rand_drawn w ..< rand_drawn w + n],
      w\<lparr>rand_drawn := rand_drawn w + n\<rparr>)"

text \<open>\<^verbatim>\<open>time.Now().UnixNano()\<close>.\<close>

definition time_Now_UnixNano :: "world \<Rightarrow> int64 \<times> world" where
  "time_Now_UnixNano w = (clock w (clock_reads w), w\<lparr>clock_reads := clock_reads w + 1\<rparr>)"

subsection \<open>Results\<close>

text \<open>
  The function returns the pair \<^verbatim>\<open>(*CorrelationVector, error)\<close>; each component can be
  \<^verbatim>\<open>nil\<close>. A run can also end in a run-time panic: on dereferencing a \<^verbatim>\<open>nil\<close> parameter
  pointer and on \<^verbatim>\<open>make\<close> with a length that is negative or above the allocation limit
  of the runtime (\<^verbatim>\<open>makeslice: len out of range\<close>). The limit \<^verbatim>\<open>maxAlloc\<close> is the one of
  64-bit targets with 48 address bits; a slice of bytes within it is taken to be
  allocated.
\<close>

datatype panic = NilDereference | MakesliceLenOutOfRange

definition maxAlloc :: nat where
  "maxAlloc = 2 ^ 48"

datatype ('v, 'e) outcome =
  Return "'v CorrelationVector option" "'e option"
| Panic panic

section \<open>Library functions of Go used by the source\<close>

text \<open>
  \<^verbatim>\<open>strconv.Itoa\<close>: the decimal representation of a signed integer, with a leading
  \<^verbatim>\<open>-\<close> for a negative one and no leading zeros.
\<close>

definition digit_char :: "nat \<Rightarrow> char" where
  "digit_char d = ''0123456789'' ! d"

fun digits10 :: "nat \<Rightarrow> string" where
  "digits10 n = (if n < 10 then [digit_char n] else digits10 (n div 10) @ [digit_char (n mod 10)])"

declare digits10.simps [simp del]

definition Itoa :: "int \<Rightarrow> string" where
  "Itoa i = (if i < 0 then CHR ''-'' # digits10 (nat (- i)) else digits10 (nat i))"

section \<open>The Spin operator\<close>

text \<open>\<^verbatim>\<open>func (sp *SpinParameters) tickBitsToDrop() uint\<close>\<close>

definition tickBitsToDrop :: "SpinParameters \<Rightarrow> go_uint" where
  "tickBitsToDrop sp =
     (if Interval sp = CoarseInterval then 24
      else if Interval sp = FineInterval then 16
      else 24)"

text \<open>\<^verbatim>\<open>func (sp *SpinParameters) totalBits() uint\<close>; the sum wraps as \<^verbatim>\<open>uint\<close> does.\<close>

definition totalBits :: "SpinParameters \<Rightarrow> go_uint" where
  "totalBits sp =
     (let counterBits =
        (if Periodicity sp = ShortPeriodicity then 16
         else if Periodicity sp = MediumPeriodicity then 24
         else if Periodicity sp = LongPeriodicity then 32
         else 0)
      in counterBits + Entropy sp * 8)"

text \<open>Line 96: \<^verbatim>\<open>ticks := time.Now().UnixNano() / 100\<close>; Go's \<^verbatim>\<open>/\<close> truncates towards zero.\<close>

definition unix_ticks :: "int64 \<Rightarrow> int64" where
  "unix_ticks nanos = word_of_int (sint nanos sdiv 100)"

text \<open>
  Lines 98 to 101: the shifted tick count, then one byte of entropy after the other
  shifted in from the right. \<^verbatim>\<open>ticks\<close> is an \<^verbatim>\<open>int64\<close>, so \<^verbatim>\<open>>>\<close> is the arithmetic
  shift. The loop runs \<^verbatim>\<open>i\<close> from 0 up to \<^verbatim>\<open>int(parameters.Entropy)\<close>, which is the length
  \<^verbatim>\<open>entropy\<close> was made with, so \<^verbatim>\<open>entropy[i]\<close> is always in range.
\<close>

definition spin_pack :: "SpinParameters \<Rightarrow> int64 \<Rightarrow> byte list \<Rightarrow> uint64" where
  "spin_pack sp ticks entropy =
     foldl (\<lambda>value i. push_bit 8 value OR ucast (entropy ! i))
       (signed_drop_bit (unat (tickBitsToDrop sp)) ticks)
       [0 ..< nat (sint (Entropy sp))]"

text \<open>
  Lines 106 to 110: the mask. Go defines \<^verbatim>\<open>x << n\<close> for every unsigned count \<open>n\<close>; a
  count of 64 or more gives 0 on a \<^verbatim>\<open>uint64\<close>, which is what \<open>push_bit\<close> does on
  \<open>64 word\<close>. The second component lists the left shifts the three statements evaluate,
  each as the pair of its operand and its count.
\<close>

definition spin_mask :: "SpinParameters \<Rightarrow> uint64 \<times> (uint64 \<times> nat) list" where
  "spin_mask sp =
     (let mask = push_bit (unat (totalBits sp)) (1 :: uint64);
          shifts = [(1 :: uint64, unat (totalBits sp))];
          mask = (if totalBits sp = 64 then 0 else mask);
          mask = mask - 1
      in (mask, shifts))"

text \<open>Line 111: \<^verbatim>\<open>value &= mask\<close>.\<close>

definition spin_value :: "SpinParameters \<Rightarrow> int64 \<Rightarrow> byte list \<Rightarrow> uint64" where
  "spin_value sp ticks entropy = spin_pack sp ticks entropy AND fst (spin_mask sp)"

text \<open>
  Lines 113 to 116: \<^verbatim>\<open>int(value)\<close> reinterprets the 64 bits as signed; the comparison
  of \<^verbatim>\<open>totalBits()\<close> with 32 is unsigned.
\<close>

definition spin_format :: "SpinParameters \<Rightarrow> uint64 \<Rightarrow> string" where
  "spin_format sp value =
     (let s = Itoa (sint value)
      in if 32 < totalBits sp then Itoa (sint (drop_bit 32 value)) @ ''.'' @ s else s)"

text \<open>
  \<^verbatim>\<open>func SpinWithParameters(correlationVector string, parameters *SpinParameters)\<close>.
  The functions \<^verbatim>\<open>inferVersion\<close> and \<^verbatim>\<open>validate\<close> are declared outside of \<^verbatim>\<open>spin.go\<close> and
  are parameters here. The parameter pointer is \<open>None\<close> for \<^verbatim>\<open>nil\<close>; it is first
  dereferenced on line 92, after both checks.
\<close>

definition SpinWithParameters ::
  "(string \<Rightarrow> 'e + 'v) \<Rightarrow> (string \<Rightarrow> 'v \<Rightarrow> 'e option) \<Rightarrow>
   string \<Rightarrow> SpinParameters option \<Rightarrow> world \<Rightarrow> ('v, 'e) outcome \<times> world" where
  "SpinWithParameters inferVersion validate correlationVector parameters w =
     (case inferVersion correlationVector of
        Inl err \<Rightarrow> (Return None (Some err), w)
      | Inr version \<Rightarrow>
          (case (if ValidateCorrelationVectorDuringCreation w
                 then validate correlationVector version else None) of
             Some err \<Rightarrow> (Return None (Some err), w)
           | None \<Rightarrow>
               (case parameters of
                  None \<Rightarrow> (Panic NilDereference, w)
                | Some sp \<Rightarrow>
                    if sint (Entropy sp) < 0 \<or> int maxAlloc < sint (Entropy sp)
                    then (Panic MakesliceLenOutOfRange, w)
                    else
                      let (entropy, w1) = rand_Read (nat (sint (Entropy sp))) w;
                          (nanos, w2) = time_Now_UnixNano w1;
                          ticks = unix_ticks nanos;
                          value = spin_value sp ticks entropy;
                          s = spin_format sp value
                      in (Return (Some (newCorrelationVector
                                          (correlationVector @ ''.'' @ s) 0 version)) None,
                          w2))))"

text \<open>\<^verbatim>\<open>func Spin(correlationVector string)\<close>\<close>

definition Spin ::
  "(string \<Rightarrow> 'e + 'v) \<Rightarrow> (string \<Rightarrow> 'v \<Rightarrow> 'e option) \<Rightarrow>
   string \<Rightarrow> world \<Rightarrow> ('v, 'e) outcome \<times> world" where
  "Spin inferVersion validate correlationVector w =
     SpinWithParameters inferVersion validate correlationVector (Some defaultParameters) w"

section \<open>Concrete inputs\<close>

text \<open>
  Stand-ins for the two external functions and for the ambient state, used where a
  statement is evaluated at a concrete input. \<open>example_inferVersion\<close> rejects the empty
  string only; \<open>example_validate\<close> rejects a string that contains \<^verbatim>\<open>!\<close>. The world
  \<open>example_world flag nanos\<close> has the validation flag \<open>flag\<close>, a clock that reads
  \<open>nanos\<close>, and a random source that hands out the bytes 1, 2, 3, ...
\<close>

definition example_inferVersion :: "string \<Rightarrow> string + nat" where
  "example_inferVersion s = (if s = [] then Inl ''empty'' else Inr 1)"

definition example_validate :: "string \<Rightarrow> nat \<Rightarrow> string option" where
  "example_validate s v = (if CHR ''!'' \<in> set s then Some ''invalid character'' else None)"

definition example_world :: "bool \<Rightarrow> int64 \<Rightarrow> world" where
  "example_world flag nanos =
     \<lparr>ValidateCorrelationVectorDuringCreation = flag,
      rand_source = (\<lambda>i. of_nat (i + 1)), rand_drawn = 0,
      clock = (\<lambda>_. nanos), clock_reads = 0\<rparr>"

section \<open>Decimal formatting\<close>

lemma digit_char_range: "d < 10 \<Longrightarrow> digit_char d \<in> set ''0123456789''"
  unfolding digit_char_def by (rule nth_mem) simp

lemma digits10_chars: "set (digits10 n) \<subseteq> set ''0123456789''"
proof (induction n rule: digits10.induct)
  case (1 n)
  show ?case
  proof (cases "n < 10")
    case True
    then show ?thesis
      using digit_char_range [of n] by (subst digits10.simps) simp
  next
    case False
    have "n mod 10 < 10" by simp
    then have "digit_char (n mod 10) \<in> set ''0123456789''"
      by (rule digit_char_range)
    with False "1.IH" show ?thesis
      by (subst digits10.simps) simp
  qed
qed

lemma digits10_not_Nil: "digits10 n \<noteq> []"
  by (subst digits10.simps) simp

lemma Itoa_not_Nil: "Itoa i \<noteq> []"
  by (simp add: Itoa_def digits10_not_Nil)

lemma Itoa_no_dot: "CHR ''.'' \<notin> set (Itoa i)"
  using digits10_chars [of "nat i"] digits10_chars [of "nat (- i)"]
  by (auto simp: Itoa_def)

lemma Itoa_0: "Itoa 0 = ''0''"
  by (simp add: Itoa_def digits10.simps digit_char_def)

lemma Itoa_327938: "Itoa 327938 = ''327938''"
  by (simp add: Itoa_def digits10.simps digit_char_def)

lemma spin_format_one_field:
  "\<not> 32 < totalBits sp \<Longrightarrow> spin_format sp x = Itoa (sint x)"
  by (simp add: spin_format_def)

lemma spin_format_two_fields:
  "32 < totalBits sp \<Longrightarrow>
   spin_format sp x = Itoa (sint (drop_bit 32 x)) @ ''.'' @ Itoa (sint x)"
  by (simp add: spin_format_def)

section \<open>The mask and the number of bits\<close>

lemma small_entropy_cases:
  fixes e :: "64 word"
  assumes "0 \<le> sint e" and "sint e \<le> 4"
  shows "e = 0 \<or> e = 1 \<or> e = 2 \<or> e = 3 \<or> e = 4"
proof -
  from assms have "sint e = 0 \<or> sint e = 1 \<or> sint e = 2 \<or> sint e = 3 \<or> sint e = 4"
    by arith
  moreover have "e = word_of_int (sint e)"
    by simp
  ultimately show ?thesis
    by (metis of_int_0 of_int_1 of_int_numeral)
qed

lemma spin_mask_below_64:
  assumes "unat (totalBits sp) < 64"
  shows "fst (spin_mask sp) = mask (unat (totalBits sp))"
proof -
  from assms have "totalBits sp \<noteq> 64"
    by auto
  then show ?thesis
    by (simp add: spin_mask_def mask_eq_exp_minus_1)
qed

lemma spin_value_bound: "unat (spin_value sp ticks entropy) < 2 ^ unat (totalBits sp)"
proof (cases "unat (totalBits sp) < 64")
  case True
  have "unat (spin_value sp ticks entropy) =
      take_bit (unat (totalBits sp)) (unat (spin_pack sp ticks entropy))"
    by (simp add: spin_value_def spin_mask_below_64 [OF True] flip: take_bit_eq_mask
        unsigned_take_bit_eq)
  then show ?thesis
    by simp
next
  case False
  have "unat (spin_value sp ticks entropy) < 2 ^ 64"
    using unsigned_less [of "spin_value sp ticks entropy"] by simp
  also from False have "(2::nat) ^ 64 \<le> 2 ^ unat (totalBits sp)"
    by (intro power_increasing) simp_all
  finally show ?thesis .
qed

lemma totalBits_small_entropy:
  assumes "0 \<le> sint (Entropy sp)" and "sint (Entropy sp) \<le> 4"
  shows "unat (totalBits sp) =
    (if Periodicity sp = ShortPeriodicity then 16
     else if Periodicity sp = MediumPeriodicity then 24
     else if Periodicity sp = LongPeriodicity then 32
     else 0) + 8 * nat (sint (Entropy sp))"
  using small_entropy_cases [OF assms]
  by (auto simp: totalBits_def)

lemma count_dots_Itoa: "count_list (Itoa i) CHR ''.'' = 0"
  by (simp add: Itoa_no_dot)

lemma spin_format_dots: "count_list (spin_format sp x) CHR ''.'' \<le> 1"
  by (simp add: spin_format_def Let_def count_dots_Itoa)

lemma full_width_parameters:
  assumes "Periodicity sp = LongPeriodicity" and "Entropy sp = FourEntropy"
  shows "totalBits sp = 64"
  using assms by (simp add: totalBits_def)

section \<open>The paths through \<open>SpinWithParameters\<close>\<close>



lemma SpinWithParameters_returns_vector:
  assumes "inferVersion b = Inr v"
    and "ValidateCorrelationVectorDuringCreation w \<Longrightarrow> validate b v = None"
    and "0 \<le> sint (Entropy sp)" and "sint (Entropy sp) \<le> int maxAlloc"
  shows "SpinWithParameters inferVersion validate b (Some sp) w =
    (Return (Some (newCorrelationVector
        (b @ ''.'' @ spin_format sp (spin_value sp (unix_ticks (clock w (clock_reads w)))
           (fst (rand_Read (nat (sint (Entropy sp))) w)))) 0 v)) None,
     w\<lparr>rand_drawn := rand_drawn w + nat (sint (Entropy sp)),
       clock_reads := clock_reads w + 1\<rparr>)"
  using assms
  by (simp add: SpinWithParameters_def rand_Read_def time_Now_UnixNano_def Let_def)



lemma SpinWithParameters_vector_cases:
  "SpinWithParameters inferVersion validate b p w = (Return (Some cv) err, w') \<Longrightarrow>
   \<exists>sp v. p = Some sp \<and> inferVersion b = Inr v \<and> 0 \<le> sint (Entropy sp) \<and>
     sint (Entropy sp) \<le> int maxAlloc \<and> err = None \<and>
     (ValidateCorrelationVectorDuringCreation w \<longrightarrow> validate b v = None) \<and>
     cv = newCorrelationVector
        (b @ ''.'' @ spin_format sp (spin_value sp (unix_ticks (clock w (clock_reads w)))
           (fst (rand_Read (nat (sint (Entropy sp))) w)))) 0 v"
  by (auto simp: SpinWithParameters_def rand_Read_def time_Now_UnixNano_def Let_def
      split: sum.splits option.splits if_splits)

section \<open>Evaluation at the concrete inputs\<close>

lemma example_entropy:
  "fst (rand_Read 0 (example_world f t)) = []"
  "fst (rand_Read 1 (example_world f t)) = [1]"
  "fst (rand_Read (Suc 0) (example_world f t)) = [1]"
  "fst (rand_Read 2 (example_world f t)) = [1, 2]"
  "fst (rand_Read 4 (example_world f t)) = [1, 2, 3, 4]"
  by (simp_all add: rand_Read_def example_world_def upt_rec)

lemma example_world_sel:
  "ValidateCorrelationVectorDuringCreation (example_world f t) = f"
  "clock (example_world f t) n = t"
  "rand_drawn (example_world f t) = 0"
  "clock_reads (example_world f t) = 0"
  by (simp_all add: example_world_def)

lemma example_ticks:
  "unix_ticks 8388608000 = 83886080"
  "unix_ticks 8388608050 = 83886080"
  "unix_ticks 1793400000000000000 = 17934000000000000"
  by (simp_all add: unix_ticks_def signed_divide_int_def)

lemma example_inferVersion_abc: "example_inferVersion ''abc.1'' = Inr 1"
  by (simp add: example_inferVersion_def)

lemma example_validate_abc: "example_validate ''abc.1'' v = None"
  by (simp add: example_validate_def)







lemma default_value: "spin_value defaultParameters 83886080 [1, 2] = 327938"
  by (simp add: spin_value_def spin_pack_def spin_mask_def defaultParameters_def
      tickBitsToDrop_def totalBits_def upt_rec)

lemma default_format: "spin_format defaultParameters 327938 = ''327938''"
  by (simp add: spin_format_def defaultParameters_def totalBits_def Itoa_def
      digits10.simps digit_char_def)

lemma long_one_value:
  "spin_value \<lparr>Interval = CoarseInterval, Periodicity = LongPeriodicity, Entropy = OneEntropy\<rparr>
     17934000000000000 [1] = 273651122945"
  by (simp add: spin_value_def spin_pack_def spin_mask_def tickBitsToDrop_def totalBits_def
      upt_rec)

lemma long_one_format:
  "spin_format \<lparr>Interval = CoarseInterval, Periodicity = LongPeriodicity, Entropy = OneEntropy\<rparr>
     273651122945 = ''63.273651122945''"
  by (simp add: spin_format_def totalBits_def Itoa_def digits10.simps digit_char_def)

lemma long_four_value:
  "spin_value \<lparr>Interval = FineInterval, Periodicity = LongPeriodicity, Entropy = FourEntropy\<rparr>
     17934000000000000 [1, 2, 3, 4] = 13177747352557060868"
  by (simp add: spin_value_def spin_pack_def spin_mask_def tickBitsToDrop_def totalBits_def
      upt_rec)

lemma long_four_format:
  "spin_format \<lparr>Interval = FineInterval, Periodicity = LongPeriodicity, Entropy = FourEntropy\<rparr>
     13177747352557060868 = ''3068183398.-5268996721152490748''"
  by (simp add: spin_format_def totalBits_def Itoa_def digits10.simps digit_char_def)

lemma default_run:
  assumes "unix_ticks t = 83886080"
  shows "SpinWithParameters example_inferVersion example_validate ''abc.1''
     (Some defaultParameters) (example_world f t) =
   (Return (Some \<lparr>cv_string = ''abc.1.327938'', cv_counter = 0, cv_version = 1\<rparr>) None,
    (example_world f t)\<lparr>rand_drawn := 2, clock_reads := 1\<rparr>)"
proof -
  have e: "Entropy defaultParameters = 2"
    by (simp add: defaultParameters_def)
  show ?thesis
    by (subst SpinWithParameters_returns_vector [where v = 1])
      (simp_all add: example_inferVersion_abc example_validate_abc e example_entropy
        example_world_sel assms default_value default_format
        newCorrelationVector_def maxAlloc_def)
qed


section \<open>The claims\<close>

subsection \<open>C2: prefix and number of fields\<close>

text \<open>
  Claim C2. Whenever \<open>SpinWithParameters\<close> returns a vector, for any base string and any
  parameter values, the string of that vector is the base string, a \<^verbatim>\<open>.\<close>, and a suffix.
  When \<open>totalBits\<close> is at most 32 the suffix is one field: it is not empty and has no
  \<^verbatim>\<open>.\<close> in it. When \<open>totalBits\<close> is above 32 the suffix is two such fields with one
  \<^verbatim>\<open>.\<close> between them.
\<close>

theorem SpinWithParameters_prefix_and_fields:
  assumes "SpinWithParameters inferVersion validate b p w = (Return (Some cv) err, w')"
  shows "\<exists>sp s. p = Some sp \<and> cv_string cv = b @ ''.'' @ s \<and>
     (if totalBits sp \<le> 32
      then s \<noteq> [] \<and> CHR ''.'' \<notin> set s
      else \<exists>hi lo. s = hi @ ''.'' @ lo \<and> hi \<noteq> [] \<and> lo \<noteq> [] \<and>
             CHR ''.'' \<notin> set hi \<and> CHR ''.'' \<notin> set lo)"
proof -
  from SpinWithParameters_vector_cases [OF assms]
  obtain sp v x where p: "p = Some sp"
    and cv: "cv = newCorrelationVector (b @ ''.'' @ spin_format sp x) 0 v"
    by blast
  have str: "cv_string cv = b @ ''.'' @ spin_format sp x"
    by (simp add: cv newCorrelationVector_def)
  show ?thesis
  proof (cases "totalBits sp \<le> 32")
    case True
    then have "spin_format sp x = Itoa (sint x)"
      by (simp add: spin_format_one_field not_less)
    with True p str show ?thesis
      by (simp add: Itoa_not_Nil Itoa_no_dot)
  next
    case False
    then have "spin_format sp x = Itoa (sint (drop_bit 32 x)) @ ''.'' @ Itoa (sint x)"
      by (simp add: spin_format_two_fields not_le)
    moreover have "Itoa (sint (drop_bit 32 x)) \<noteq> []" "Itoa (sint x) \<noteq> []"
      "CHR ''.'' \<notin> set (Itoa (sint (drop_bit 32 x)))" "CHR ''.'' \<notin> set (Itoa (sint x))"
      by (rule Itoa_not_Nil Itoa_no_dot)+
    ultimately have "\<exists>hi lo. spin_format sp x = hi @ ''.'' @ lo \<and> hi \<noteq> [] \<and> lo \<noteq> [] \<and>
             CHR ''.'' \<notin> set hi \<and> CHR ''.'' \<notin> set lo"
      by blast
    with False p str show ?thesis
      by simp
  qed
qed

text \<open>The theorem at the default parameters, where a vector is returned.\<close>

theorem SpinWithParameters_prefix_and_fields_witness:
  "SpinWithParameters example_inferVersion example_validate ''abc.1''
     (Some defaultParameters) (example_world False 8388608000) =
   (Return (Some \<lparr>cv_string = ''abc.1.327938'', cv_counter = 0, cv_version = 1\<rparr>) None,
    (example_world False 8388608000)\<lparr>rand_drawn := 2, clock_reads := 1\<rparr>) \<and>
   (\<exists>sp s. Some defaultParameters = Some sp \<and>
      cv_string \<lparr>cv_string = ''abc.1.327938'', cv_counter = 0, cv_version = 1::nat\<rparr> =
        ''abc.1'' @ ''.'' @ s \<and>
      (if totalBits sp \<le> 32
       then s \<noteq> [] \<and> CHR ''.'' \<notin> set s
       else \<exists>hi lo. s = hi @ ''.'' @ lo \<and> hi \<noteq> [] \<and> lo \<noteq> [] \<and>
              CHR ''.'' \<notin> set hi \<and> CHR ''.'' \<notin> set lo))"
  by (rule conjI [OF default_run [OF example_ticks(1)]
      SpinWithParameters_prefix_and_fields [OF default_run [OF example_ticks(1)]]])

subsection \<open>C10: no periodicity and no entropy\<close>

text \<open>
  Claim C10. With \<open>Periodicity = NoPeriodicity\<close> and \<open>Entropy = NoEntropy\<close> the total
  number of bits is 0 and the mask is 0, so for every base string whose version is
  inferred (and which passes validation when the flag is set), every clock and every
  random source, the vector returned has the base string followed by \<^verbatim>\<open>.0\<close>.
\<close>

theorem no_periodicity_no_entropy_appends_zero:
  assumes "Periodicity sp = NoPeriodicity" and "Entropy sp = NoEntropy"
    and "inferVersion b = Inr v"
    and "ValidateCorrelationVectorDuringCreation w \<longrightarrow> validate b v = None"
  shows "totalBits sp = 0 \<and> fst (spin_mask sp) = 0 \<and>
    fst (SpinWithParameters inferVersion validate b (Some sp) w) =
      Return (Some (newCorrelationVector (b @ ''.0'') 0 v)) None"
proof -
  have tb: "totalBits sp = 0"
    using assms(1,2) by (simp add: totalBits_def)
  have m: "fst (spin_mask sp) = 0"
    by (simp add: spin_mask_def tb)
  have "spin_value sp t e = 0" for t e
    by (simp add: spin_value_def m)
  moreover have "spin_format sp 0 = ''0''"
    by (simp add: spin_format_one_field tb Itoa_0)
  ultimately show ?thesis
    using assms(2-4) tb m
    by (simp add: SpinWithParameters_returns_vector [where v = v] maxAlloc_def)
qed

text \<open>The theorem with the validation flag set and the fine interval.\<close>

theorem no_periodicity_no_entropy_appends_zero_witness:
  "Periodicity \<lparr>Interval = FineInterval, Periodicity = NoPeriodicity, Entropy = NoEntropy\<rparr>
     = NoPeriodicity \<and>
   Entropy \<lparr>Interval = FineInterval, Periodicity = NoPeriodicity, Entropy = NoEntropy\<rparr>
     = NoEntropy \<and>
   example_inferVersion ''abc.1'' = Inr 1 \<and>
   ValidateCorrelationVectorDuringCreation (example_world True 1793400000000000000) \<and>
   example_validate ''abc.1'' 1 = None \<and>
   fst (SpinWithParameters example_inferVersion example_validate ''abc.1''
     (Some \<lparr>Interval = FineInterval, Periodicity = NoPeriodicity, Entropy = NoEntropy\<rparr>)
     (example_world True 1793400000000000000)) =
   Return (Some \<lparr>cv_string = ''abc.1.0'', cv_counter = 0, cv_version = 1\<rparr>) None"
proof -
  let ?sp = "\<lparr>Interval = FineInterval, Periodicity = NoPeriodicity, Entropy = NoEntropy\<rparr>"
  let ?w = "example_world True 1793400000000000000"
  have h1: "Periodicity ?sp = NoPeriodicity" and h2: "Entropy ?sp = NoEntropy"
    by simp_all
  have h4: "ValidateCorrelationVectorDuringCreation ?w \<longrightarrow> example_validate ''abc.1'' 1 = None"
    by (simp add: example_validate_abc)
  from no_periodicity_no_entropy_appends_zero
    [where sp = ?sp and inferVersion = example_inferVersion and b = "''abc.1''" and v = 1
       and w = ?w and validate = example_validate,
     OF h1 h2 example_inferVersion_abc h4]
  show ?thesis
    by (simp add: example_inferVersion_abc example_validate_abc example_world_sel
        newCorrelationVector_def)
qed

subsection \<open>C5: the masked value fits the configured number of bits\<close>

text \<open>
  Claim C5. For every periodicity and every \<open>Entropy\<close> from 0 to 4, every tick count
  and every sequence of entropy bytes, the masked packed value is below 2 to the power
  of the periodicity bits plus 8 times \<open>Entropy\<close>; the formatted value has at most one
  \<^verbatim>\<open>.\<close>, that is at most two fields; and the string of a returned vector is the base
  string, a \<^verbatim>\<open>.\<close> and that formatted value.
\<close>

theorem masked_value_within_totalBits:
  assumes "0 \<le> sint (Entropy sp)" and "sint (Entropy sp) \<le> 4"
  shows "unat (spin_value sp ticks entropy) <
      2 ^ ((if Periodicity sp = ShortPeriodicity then 16
            else if Periodicity sp = MediumPeriodicity then 24
            else if Periodicity sp = LongPeriodicity then 32
            else 0) + 8 * nat (sint (Entropy sp))) \<and>
    count_list (spin_format sp (spin_value sp ticks entropy)) CHR ''.'' \<le> 1 \<and>
    (\<forall>cv err w'.
       SpinWithParameters inferVersion validate b (Some sp) w = (Return (Some cv) err, w') \<longrightarrow>
       cv_string cv = b @ ''.'' @
         spin_format sp (spin_value sp (unix_ticks (clock w (clock_reads w)))
           (fst (rand_Read (nat (sint (Entropy sp))) w))))"
proof -
  have "unat (spin_value sp ticks entropy) < 2 ^ unat (totalBits sp)"
    by (rule spin_value_bound)
  then have bound: "unat (spin_value sp ticks entropy) <
      2 ^ ((if Periodicity sp = ShortPeriodicity then 16
            else if Periodicity sp = MediumPeriodicity then 24
            else if Periodicity sp = LongPeriodicity then 32
            else 0) + 8 * nat (sint (Entropy sp)))"
    by (simp only: totalBits_small_entropy [OF assms])
  have "cv_string cv = b @ ''.'' @
         spin_format sp (spin_value sp (unix_ticks (clock w (clock_reads w)))
           (fst (rand_Read (nat (sint (Entropy sp))) w)))"
    if "SpinWithParameters inferVersion validate b (Some sp) w = (Return (Some cv) err, w')"
    for cv err w'
    using SpinWithParameters_vector_cases [OF that]
    by (auto simp: newCorrelationVector_def)
  with bound spin_format_dots show ?thesis
    by blast
qed

text \<open>The theorem at the default parameters and the run that returns \<^verbatim>\<open>abc.1.327938\<close>.\<close>

theorem masked_value_within_totalBits_witness:
  "0 \<le> sint (Entropy defaultParameters) \<and> sint (Entropy defaultParameters) \<le> 4 \<and>
   unat (spin_value defaultParameters 83886080 [1, 2]) <
      2 ^ ((if Periodicity defaultParameters = ShortPeriodicity then 16
            else if Periodicity defaultParameters = MediumPeriodicity then 24
            else if Periodicity defaultParameters = LongPeriodicity then 32
            else 0) + 8 * nat (sint (Entropy defaultParameters))) \<and>
   count_list (spin_format defaultParameters (spin_value defaultParameters 83886080 [1, 2]))
     CHR ''.'' \<le> 1 \<and>
   SpinWithParameters example_inferVersion example_validate ''abc.1''
     (Some defaultParameters) (example_world False 8388608000) =
   (Return (Some \<lparr>cv_string = ''abc.1.327938'', cv_counter = 0, cv_version = 1\<rparr>) None,
    (example_world False 8388608000)\<lparr>rand_drawn := 2, clock_reads := 1\<rparr>) \<and>
   cv_string \<lparr>cv_string = ''abc.1.327938'', cv_counter = 0, cv_version = 1::nat\<rparr> =
     ''abc.1'' @ ''.'' @ spin_format defaultParameters
       (spin_value defaultParameters
         (unix_ticks (clock (example_world False 8388608000)
            (clock_reads (example_world False 8388608000))))
         (fst (rand_Read (nat (sint (Entropy defaultParameters)))
            (example_world False 8388608000))))"
proof -
  have h1: "0 \<le> sint (Entropy defaultParameters)"
    and h2: "sint (Entropy defaultParameters) \<le> 4"
    by (simp_all add: defaultParameters_def)
  note run = default_run [OF example_ticks(1), of False]
  from masked_value_within_totalBits
    [where sp = defaultParameters and ticks = 83886080 and entropy = "[1, 2]"
       and inferVersion = example_inferVersion and validate = example_validate
       and b = "''abc.1''" and w = "example_world False 8388608000", OF h1 h2]
    h1 h2 run
  show ?thesis
    by blast
qed

subsection \<open>C6: the result is a function of the tick count and the entropy bytes\<close>

text \<open>
  Claim C6. Two runs on the same base string and the same parameters, in two worlds
  that give the same tick count and the same entropy bytes, return the same vector
  whenever both return one: the same suffix, and so the same whole string. The worlds
  may differ in everything else (the flag, the validator consulted, the nanoseconds
  below one tick, the bytes of the random source that are not drawn).
\<close>

theorem SpinWithParameters_deterministic:
  assumes "unix_ticks (clock w1 (clock_reads w1)) = unix_ticks (clock w2 (clock_reads w2))"
    and "fst (rand_Read (nat (sint (Entropy sp))) w1) =
         fst (rand_Read (nat (sint (Entropy sp))) w2)"
    and "SpinWithParameters inferVersion validate1 b (Some sp) w1 = (Return (Some cv1) e1, w1')"
    and "SpinWithParameters inferVersion validate2 b (Some sp) w2 = (Return (Some cv2) e2, w2')"
  shows "cv1 = cv2 \<and>
    cv_string cv1 = b @ ''.'' @ spin_format sp
      (spin_value sp (unix_ticks (clock w1 (clock_reads w1)))
         (fst (rand_Read (nat (sint (Entropy sp))) w1)))"
proof -
  from SpinWithParameters_vector_cases [OF assms(3)]
  obtain v1 where "inferVersion b = Inr v1"
    and cv1: "cv1 = newCorrelationVector
        (b @ ''.'' @ spin_format sp (spin_value sp (unix_ticks (clock w1 (clock_reads w1)))
           (fst (rand_Read (nat (sint (Entropy sp))) w1)))) 0 v1"
    by auto
  moreover from SpinWithParameters_vector_cases [OF assms(4)]
  obtain v2 where "inferVersion b = Inr v2"
    and cv2: "cv2 = newCorrelationVector
        (b @ ''.'' @ spin_format sp (spin_value sp (unix_ticks (clock w2 (clock_reads w2)))
           (fst (rand_Read (nat (sint (Entropy sp))) w2)))) 0 v2"
    by auto
  ultimately have "v1 = v2"
    by simp
  with cv1 cv2 assms(1,2) show ?thesis
    by (simp add: newCorrelationVector_def)
qed

text \<open>
  Two worlds that differ in the flag and in the clock reading (by 50 nanoseconds, which
  is less than one tick) and return the same vector.
\<close>

theorem SpinWithParameters_deterministic_witness:
  "unix_ticks (clock (example_world False 8388608000) (clock_reads (example_world False 8388608000)))
     = unix_ticks (clock (example_world True 8388608050) (clock_reads (example_world True 8388608050))) \<and>
   fst (rand_Read (nat (sint (Entropy defaultParameters))) (example_world False 8388608000)) =
   fst (rand_Read (nat (sint (Entropy defaultParameters))) (example_world True 8388608050)) \<and>
   SpinWithParameters example_inferVersion example_validate ''abc.1''
     (Some defaultParameters) (example_world False 8388608000) =
   (Return (Some \<lparr>cv_string = ''abc.1.327938'', cv_counter = 0, cv_version = 1\<rparr>) None,
    (example_world False 8388608000)\<lparr>rand_drawn := 2, clock_reads := 1\<rparr>) \<and>
   SpinWithParameters example_inferVersion example_validate ''abc.1''
     (Some defaultParameters) (example_world True 8388608050) =
   (Return (Some \<lparr>cv_string = ''abc.1.327938'', cv_counter = 0, cv_version = 1\<rparr>) None,
    (example_world True 8388608050)\<lparr>rand_drawn := 2, clock_reads := 1\<rparr>) \<and>
   cv_string \<lparr>cv_string = ''abc.1.327938'', cv_counter = 0, cv_version = 1::nat\<rparr> =
     ''abc.1'' @ ''.'' @ spin_format defaultParameters
       (spin_value defaultParameters
         (unix_ticks (clock (example_world False 8388608000)
            (clock_reads (example_world False 8388608000))))
         (fst (rand_Read (nat (sint (Entropy defaultParameters)))
            (example_world False 8388608000))))"
proof -
  let ?w1 = "example_world False 8388608000" and ?w2 = "example_world True 8388608050"
  have h1: "unix_ticks (clock ?w1 (clock_reads ?w1)) = unix_ticks (clock ?w2 (clock_reads ?w2))"
    by (simp add: example_world_sel example_ticks)
  have h2: "fst (rand_Read (nat (sint (Entropy defaultParameters))) ?w1) =
            fst (rand_Read (nat (sint (Entropy defaultParameters))) ?w2)"
    by (simp add: defaultParameters_def example_entropy)
  note h3 = default_run [OF example_ticks(1), of False]
  note h4 = default_run [OF example_ticks(2), of True]
  from SpinWithParameters_deterministic [OF h1 h2 h3 h4] h1 h2 h3 h4
  show ?thesis
    by blast
qed

subsection \<open>C7: validation is gated by the flag\<close>




subsection \<open>C8: the error paths\<close>




subsection \<open>C4: 32 bits of counter and 4 bytes of entropy\<close>

text \<open>
  Claim C4, as stated: with \<open>LongPeriodicity\<close> and \<open>FourEntropy\<close> no shift of a 64-bit
  integer by 64 is performed. The statement on line 106 is not guarded: it shifts
  \<^verbatim>\<open>uint64(1)\<close> by \<open>totalBits\<close>, which is 64 here.
\<close>

theorem full_width_shift_counterexample:
  "snd (spin_mask \<lparr>Interval = CoarseInterval, Periodicity = LongPeriodicity,
     Entropy = FourEntropy\<rparr>) = [(1, 64)]"
  by (simp add: spin_mask_def totalBits_def)

text \<open>
  Claim C4, amended. With \<open>LongPeriodicity\<close> and \<open>FourEntropy\<close>, \<open>totalBits\<close> is 64; line
  106 does shift \<^verbatim>\<open>uint64(1)\<close> by 64, which Go defines and which gives 0; the branch on
  \<open>totalBits = 64\<close> sets the mask to 0 and the decrement wraps it to all ones (\<open>- 1\<close> as
  a \<open>64 word\<close>); masking leaves the packed value unchanged.
\<close>

theorem full_width_mask:
  assumes "Periodicity sp = LongPeriodicity" and "Entropy sp = FourEntropy"
  shows "totalBits sp = 64 \<and> snd (spin_mask sp) = [(1, 64)] \<and>
    push_bit 64 (1 :: uint64) = 0 \<and> fst (spin_mask sp) = - 1 \<and>
    spin_value sp ticks entropy = spin_pack sp ticks entropy"
proof -
  note tb = full_width_parameters [OF assms]
  have "snd (spin_mask sp) = [(1, 64)]" and m: "fst (spin_mask sp) = - 1"
    by (simp_all add: spin_mask_def tb)
  moreover have "push_bit 64 (1 :: uint64) = 0"
    by simp
  moreover have "spin_value sp ticks entropy = spin_pack sp ticks entropy"
    by (simp add: spin_value_def m)
  ultimately show ?thesis
    using tb by simp
qed

text \<open>The theorem at the coarse interval; all ones is \<open>2 ^ 64 - 1\<close>.\<close>

theorem full_width_mask_witness:
  "Periodicity \<lparr>Interval = CoarseInterval, Periodicity = LongPeriodicity, Entropy = FourEntropy\<rparr>
     = LongPeriodicity \<and>
   Entropy \<lparr>Interval = CoarseInterval, Periodicity = LongPeriodicity, Entropy = FourEntropy\<rparr>
     = FourEntropy \<and>
   fst (spin_mask \<lparr>Interval = CoarseInterval, Periodicity = LongPeriodicity,
     Entropy = FourEntropy\<rparr>) = 18446744073709551615 \<and>
   spin_value \<lparr>Interval = CoarseInterval, Periodicity = LongPeriodicity, Entropy = FourEntropy\<rparr>
     17934000000000000 [1, 2, 3, 4] =
   spin_pack \<lparr>Interval = CoarseInterval, Periodicity = LongPeriodicity, Entropy = FourEntropy\<rparr>
     17934000000000000 [1, 2, 3, 4]"
proof -
  let ?sp = "\<lparr>Interval = CoarseInterval, Periodicity = LongPeriodicity, Entropy = FourEntropy\<rparr>"
  have h1: "Periodicity ?sp = LongPeriodicity" and h2: "Entropy ?sp = FourEntropy"
    by simp_all
  from full_width_mask [OF h1 h2, of 17934000000000000 "[1, 2, 3, 4]"]
  show ?thesis
    by simp
qed

subsection \<open>C9: the example of the specification\<close>

text \<open>
  Claim C9, as stated: with the parameters \<^verbatim>\<open>{CoarseInterval, ShortPeriodicity,
  TwoEntropy}\<close>, a shifted tick value of 5 and the entropy bytes 1 and 2, the packed
  value is 328706 and the string returned for the base \<^verbatim>\<open>abc.1\<close> is \<^verbatim>\<open>abc.1.328706\<close>.
  At a tick count of 83886080, whose shifted value is 5, the packed value is 327938,
  which is \<open>(5 * 256 + 1) * 256 + 2\<close>, and the string is \<^verbatim>\<open>abc.1.327938\<close>.
\<close>

theorem spec_example_counterexample:
  "signed_drop_bit (unat (tickBitsToDrop
      \<lparr>Interval = CoarseInterval, Periodicity = ShortPeriodicity, Entropy = TwoEntropy\<rparr>))
      (83886080 :: int64) = 5 \<and>
   spin_pack \<lparr>Interval = CoarseInterval, Periodicity = ShortPeriodicity, Entropy = TwoEntropy\<rparr>
      83886080 [1, 2] = 327938 \<and>
   spin_pack \<lparr>Interval = CoarseInterval, Periodicity = ShortPeriodicity, Entropy = TwoEntropy\<rparr>
      83886080 [1, 2] \<noteq> 328706 \<and>
   fst (SpinWithParameters example_inferVersion example_validate ''abc.1''
      (Some \<lparr>Interval = CoarseInterval, Periodicity = ShortPeriodicity, Entropy = TwoEntropy\<rparr>)
      (example_world False 8388608000)) =
     Return (Some \<lparr>cv_string = ''abc.1.327938'', cv_counter = 0, cv_version = 1\<rparr>) None \<and>
   fst (SpinWithParameters example_inferVersion example_validate ''abc.1''
      (Some \<lparr>Interval = CoarseInterval, Periodicity = ShortPeriodicity, Entropy = TwoEntropy\<rparr>)
      (example_world False 8388608000)) \<noteq>
     Return (Some \<lparr>cv_string = ''abc.1.328706'', cv_counter = 0, cv_version = 1\<rparr>) None"
  using default_run [OF example_ticks(1), of False]
  by (simp add: spin_pack_def tickBitsToDrop_def upt_rec defaultParameters_def)

text \<open>
  Claim C9, amended. With these parameters, any clock reading whose shifted tick value
  is 5 and the entropy bytes 1 and 2, the packed value is 327938; \<open>totalBits\<close> is 32 and
  masking leaves the value unchanged; for the base \<^verbatim>\<open>abc.1\<close>, when its version is
  inferred and it passes validation where the flag is set, the vector returned has the
  string \<^verbatim>\<open>abc.1.327938\<close>.
\<close>

theorem spec_example_value:
  assumes "signed_drop_bit 24 (unix_ticks (clock w (clock_reads w))) = 5"
    and "fst (rand_Read 2 w) = [1, 2]"
    and "inferVersion ''abc.1'' = Inr v"
    and "ValidateCorrelationVectorDuringCreation w \<longrightarrow> validate ''abc.1'' v = None"
  shows "spin_pack \<lparr>Interval = CoarseInterval, Periodicity = ShortPeriodicity,
        Entropy = TwoEntropy\<rparr> (unix_ticks (clock w (clock_reads w))) [1, 2] = 327938 \<and>
    totalBits \<lparr>Interval = CoarseInterval, Periodicity = ShortPeriodicity,
        Entropy = TwoEntropy\<rparr> = 32 \<and>
    spin_value \<lparr>Interval = CoarseInterval, Periodicity = ShortPeriodicity,
        Entropy = TwoEntropy\<rparr> (unix_ticks (clock w (clock_reads w))) [1, 2] = 327938 \<and>
    fst (SpinWithParameters inferVersion validate ''abc.1''
      (Some \<lparr>Interval = CoarseInterval, Periodicity = ShortPeriodicity, Entropy = TwoEntropy\<rparr>)
      w) = Return (Some (newCorrelationVector ''abc.1.327938'' 0 v)) None"
proof -
  let ?sp = "\<lparr>Interval = CoarseInterval, Periodicity = ShortPeriodicity, Entropy = TwoEntropy\<rparr>"
  let ?t = "unix_ticks (clock w (clock_reads w))"
  have pack: "spin_pack ?sp ?t [1, 2] = 327938"
    by (simp add: spin_pack_def tickBitsToDrop_def upt_rec assms(1))
  have tb: "totalBits ?sp = 32"
    by (simp add: totalBits_def)
  have val: "spin_value ?sp ?t [1, 2] = 327938"
    by (simp add: spin_value_def pack spin_mask_def tb)
  have fmt: "spin_format ?sp 327938 = ''327938''"
    by (simp add: spin_format_one_field tb Itoa_327938)
  have run: "SpinWithParameters inferVersion validate ''abc.1'' (Some ?sp) w =
    (Return (Some (newCorrelationVector
        (''abc.1'' @ ''.'' @ spin_format ?sp (spin_value ?sp ?t
           (fst (rand_Read (nat (sint (Entropy ?sp))) w)))) 0 v)) None,
     w\<lparr>rand_drawn := rand_drawn w + nat (sint (Entropy ?sp)),
       clock_reads := clock_reads w + 1\<rparr>)"
    using assms(3,4) by (intro SpinWithParameters_returns_vector) (simp_all add: maxAlloc_def)
  have "fst (SpinWithParameters inferVersion validate ''abc.1'' (Some ?sp) w) =
      Return (Some (newCorrelationVector ''abc.1.327938'' 0 v)) None"
    by (simp add: run assms(2) val fmt)
  with pack tb val show ?thesis
    by simp
qed

text \<open>The theorem at the clock reading of 8388608000 nanoseconds.\<close>

theorem spec_example_value_witness:
  "signed_drop_bit 24 (unix_ticks (clock (example_world False 8388608000)
      (clock_reads (example_world False 8388608000)))) = 5 \<and>
   fst (rand_Read 2 (example_world False 8388608000)) = [1, 2] \<and>
   example_inferVersion ''abc.1'' = Inr 1 \<and>
   example_validate ''abc.1'' 1 = None \<and>
   fst (SpinWithParameters example_inferVersion example_validate ''abc.1''
      (Some \<lparr>Interval = CoarseInterval, Periodicity = ShortPeriodicity, Entropy = TwoEntropy\<rparr>)
      (example_world False 8388608000)) =
   Return (Some \<lparr>cv_string = ''abc.1.327938'', cv_counter = 0, cv_version = 1\<rparr>) None"
proof -
  let ?w = "example_world False 8388608000"
  have h1: "signed_drop_bit 24 (unix_ticks (clock ?w (clock_reads ?w))) = 5"
    by (simp add: example_world_sel example_ticks)
  have h4: "ValidateCorrelationVectorDuringCreation ?w \<longrightarrow> example_validate ''abc.1'' 1 = None"
    by (simp add: example_validate_abc)
  from spec_example_value
    [where w = ?w and inferVersion = example_inferVersion and validate = example_validate
       and v = 1, OF h1 example_entropy(4) example_inferVersion_abc h4]
    h1 example_entropy(4) [of False 8388608000] example_inferVersion_abc
    example_validate_abc [of 1]
  show ?thesis
    by (simp add: newCorrelationVector_def)
qed

subsection \<open>C1: the second field when more than 32 bits are kept\<close>

text \<open>
  Claim C1 says that above 32 bits the second field is the low 32 bits of the masked
  value. Line 113 formats \<^verbatim>\<open>int(value)\<close>, the whole value. With \<open>LongPeriodicity\<close> and
  \<open>OneEntropy\<close> (40 bits), the clock at 1793400000000000000 nanoseconds and the entropy
  byte 1, the masked value is 273651122945: the first field is \<^verbatim>\<open>63\<close>, its high 32
  bits, and the second field is \<^verbatim>\<open>273651122945\<close>, where the low 32 bits are
  3068183297.
\<close>

theorem low_field_is_whole_value:
  "32 < totalBits \<lparr>Interval = CoarseInterval, Periodicity = LongPeriodicity,
      Entropy = OneEntropy\<rparr> \<and>
   spin_value \<lparr>Interval = CoarseInterval, Periodicity = LongPeriodicity, Entropy = OneEntropy\<rparr>
     (unix_ticks 1793400000000000000) [1] = 273651122945 \<and>
   Itoa (sint (drop_bit 32 (273651122945 :: uint64))) = ''63'' \<and>
   Itoa (int (unat (273651122945 :: uint64) mod 2 ^ 32)) = ''3068183297'' \<and>
   fst (SpinWithParameters example_inferVersion example_validate ''abc.1''
     (Some \<lparr>Interval = CoarseInterval, Periodicity = LongPeriodicity, Entropy = OneEntropy\<rparr>)
     (example_world False 1793400000000000000)) =
   Return (Some \<lparr>cv_string = ''abc.1.63.273651122945'', cv_counter = 0, cv_version = 1\<rparr>) None"
proof -
  let ?sp = "\<lparr>Interval = CoarseInterval, Periodicity = LongPeriodicity, Entropy = OneEntropy\<rparr>"
  have "fst (SpinWithParameters example_inferVersion example_validate ''abc.1'' (Some ?sp)
     (example_world False 1793400000000000000)) =
   Return (Some \<lparr>cv_string = ''abc.1.63.273651122945'', cv_counter = 0, cv_version = 1\<rparr>) None"
    by (subst SpinWithParameters_returns_vector [where v = 1])
      (simp_all add: example_inferVersion_abc example_validate_abc example_entropy
        example_world_sel example_ticks long_one_value long_one_format
        newCorrelationVector_def maxAlloc_def)
  moreover have "32 < totalBits ?sp"
    by (simp add: totalBits_def)
  moreover have "Itoa (sint (drop_bit 32 (273651122945 :: uint64))) = ''63''"
    "Itoa (int (unat (273651122945 :: uint64) mod 2 ^ 32)) = ''3068183297''"
    by (simp_all add: Itoa_def digits10.simps digit_char_def)
  ultimately show ?thesis
    by (simp add: example_ticks long_one_value)
qed

subsection \<open>C3: the sign of the second field at 64 bits\<close>

text \<open>
  Claim C3 says that no field has a minus sign for an \<open>Entropy\<close> from 0 to 4. Line 113
  converts the masked value to the signed \<^verbatim>\<open>int\<close>. With \<open>FineInterval\<close>,
  \<open>LongPeriodicity\<close> and \<open>FourEntropy\<close> (64 bits), the clock at 1793400000000000000
  nanoseconds and the entropy bytes 1, 2, 3, 4, bit 63 of the masked value is set and the
  second field is \<^verbatim>\<open>-5268996721152490748\<close>.
\<close>

theorem low_field_negative:
  "0 \<le> sint (Entropy \<lparr>Interval = FineInterval, Periodicity = LongPeriodicity,
      Entropy = FourEntropy\<rparr>) \<and>
   sint (Entropy \<lparr>Interval = FineInterval, Periodicity = LongPeriodicity,
      Entropy = FourEntropy\<rparr>) \<le> 4 \<and>
   sint (spin_value \<lparr>Interval = FineInterval, Periodicity = LongPeriodicity,
      Entropy = FourEntropy\<rparr> (unix_ticks 1793400000000000000) [1, 2, 3, 4]) =
     - 5268996721152490748 \<and>
   fst (SpinWithParameters example_inferVersion example_validate ''abc.1''
     (Some \<lparr>Interval = FineInterval, Periodicity = LongPeriodicity, Entropy = FourEntropy\<rparr>)
     (example_world False 1793400000000000000)) =
   Return (Some \<lparr>cv_string = ''abc.1.3068183398.-5268996721152490748'', cv_counter = 0,
     cv_version = 1\<rparr>) None"
proof -
  let ?sp = "\<lparr>Interval = FineInterval, Periodicity = LongPeriodicity, Entropy = FourEntropy\<rparr>"
  have "fst (SpinWithParameters example_inferVersion example_validate ''abc.1'' (Some ?sp)
     (example_world False 1793400000000000000)) =
   Return (Some \<lparr>cv_string = ''abc.1.3068183398.-5268996721152490748'', cv_counter = 0,
     cv_version = 1\<rparr>) None"
    by (subst SpinWithParameters_returns_vector [where v = 1])
      (simp_all add: example_inferVersion_abc example_validate_abc example_entropy
        example_world_sel example_ticks long_four_value long_four_format
        newCorrelationVector_def maxAlloc_def)
  then show ?thesis
    by (simp add: example_ticks long_four_value)
qed

end
